theory Spec2Isabelle
  imports Complex_Main
begin

section \<open>Values, errors and tapes\<close>

text \<open>
  Exceptions of the Python code are values. \<open>AttributeError\<close> is what reading
  \<open>_value\<close> of an object without that attribute raises, \<open>ValueError\<close> is a failed
  \<open>set_parameters\<close>, \<open>TypeError\<close> is iterating \<open>None\<close>; \<open>Raised\<close> carries an
  exception of an external collaborator (device, gradient function, postprocessing
  function, numeric library), named by a string.
\<close>

datatype error = AttributeError | TypeError | ValueError | Raised string

text \<open>
  The values a tape parameter or a gradient entry can be: Python's \<open>None\<close>, a plain
  number or NumPy array (no \<open>requires_grad\<close> attribute), a \<open>pennylane.numpy.tensor\<close>
  with its \<open>requires_grad\<close> flag, and an autograd \<open>ArrayBox\<close> with its \<open>_value\<close>.
  The numeric payload \<open>'a\<close> is never computed with here.
\<close>

datatype 'a pyval =
    NoneVal
  | Plain 'a
  | Tensor 'a bool
  | ArrayBox "'a pyval"

fun is_ArrayBox :: "'a pyval \<Rightarrow> bool" where
  "is_ArrayBox (ArrayBox v) = True"
| "is_ArrayBox v = False"

text \<open>\<open>getattr(p, "requires_grad", False)\<close>: only a tensor has the attribute.\<close>

fun requires_grad :: "'a pyval \<Rightarrow> bool" where
  "requires_grad (Tensor x b) = b"
| "requires_grad v = False"

text \<open>
  Modelled from the spec: the class \<open>QuantumTape\<close> and its methods \<open>set_parameters\<close>
  and \<open>get_parameters\<close> are not among the sources. A tape is its operations
  (\<open>operations\<close>, opaque), the flat list of all its parameters (what walking
  \<open>_par_info\<close> and reading \<open>op.data[p_idx]\<close> yields, in order) and the mutable set
  \<open>trainable_params\<close> of indices.
\<close>

record ('s, 'a) QuantumTape =
  operations :: 's
  parameters :: "'a pyval list"
  trainable_params :: "nat set"

text \<open>
  Modelled from the spec: \<open>set_parameters(params, trainable_only=False)\<close> overwrites
  every position of the tape with the given values; a mismatched parameter count is a
  failure.
\<close>

definition set_parameters ::
  "('s, 'a) QuantumTape \<Rightarrow> 'a pyval list \<Rightarrow> error + ('s, 'a) QuantumTape" where
  "set_parameters t params =
     (if length params = length (parameters t) then Inr (t\<lparr>parameters := params\<rparr>)
      else Inl ValueError)"

text \<open>
  Modelled from the spec: \<open>get_parameters()\<close> returns the parameters at the trainable
  positions, in position order (the docstring of \<open>UnwrapTape\<close> shows \<open>[0.1, 0.3]\<close> for
  the trainable set \<open>{0, 2}\<close>).
\<close>

definition get_parameters :: "('s, 'a) QuantumTape \<Rightarrow> 'a pyval list" where
  "get_parameters t = nths (parameters t) (trainable_params t)"

section \<open>The unwrap layer\<close>

text \<open>
  \<open>get_trainable_params\<close>: the second loop of the source, over
  \<open>enumerate(params)\<close>, adds \<open>idx\<close> when the parameter has a true \<open>requires_grad\<close> or
  is an \<open>ArrayBox\<close>. \<open>trainable_from idx ps\<close> is that loop on the rest \<open>ps\<close> of the
  list, at position \<open>idx\<close>.
\<close>

fun trainable_from :: "nat \<Rightarrow> 'a pyval list \<Rightarrow> nat set" where
  "trainable_from idx [] = {}"
| "trainable_from idx (p # ps) =
     (if requires_grad p \<or> is_ArrayBox p then insert idx (trainable_from (Suc idx) ps)
      else trainable_from (Suc idx) ps)"

definition get_trainable_params ::
  "('s, 'a) QuantumTape \<Rightarrow> nat set \<times> 'a pyval list" where
  "get_trainable_params t = (let params = parameters t in (trainable_from 0 params, params))"

text \<open>
  \<open>_unwrap_arraybox(arraybox, max_depth=None, _n=0)\<close>. Reading \<open>_value\<close> of anything
  but an \<open>ArrayBox\<close> raises \<open>AttributeError\<close>.
\<close>

fun unwrap_arraybox :: "'a pyval \<Rightarrow> int option \<Rightarrow> int \<Rightarrow> error + 'a pyval" where
  "unwrap_arraybox arraybox max_depth n =
     (if max_depth \<noteq> None \<and> Some n = max_depth then Inr arraybox
      else (case arraybox of
              ArrayBox val \<Rightarrow>
                (if is_ArrayBox val then unwrap_arraybox val max_depth (n + 1) else Inr val)
            | _ \<Rightarrow> Inl AttributeError))"

declare unwrap_arraybox.simps [simp del]

text \<open>
  \<open>convert_to_numpy\<close>: a tensor gives its plain array (\<open>t.numpy()\<close>), an \<open>ArrayBox\<close> is
  unwrapped without depth bound, anything else is passed through. The unbounded
  unwrapping of an \<open>ArrayBox\<close> cannot fail; \<open>unbox\<close> is that call.
\<close>

fun unbox :: "'a pyval \<Rightarrow> 'a pyval" where
  "unbox (ArrayBox val) = (if is_ArrayBox val then unbox val else val)"
| "unbox v = v"

fun convert_one :: "'a pyval \<Rightarrow> 'a pyval" where
  "convert_one (Tensor x b) = Plain x"
| "convert_one (ArrayBox val) = unbox (ArrayBox val)"
| "convert_one v = v"

definition convert_to_numpy :: "'a pyval list \<Rightarrow> 'a pyval list" where
  "convert_to_numpy tensors = map convert_one tensors"

section \<open>Scoped tape unwrapping\<close>

text \<open>
  Tapes are mutable objects, and the same tape may occur twice in a batch: a store maps
  the address of a tape to its current state, and the code works on addresses.
\<close>

type_synonym ('s, 'a) store = "nat \<Rightarrow> ('s, 'a) QuantumTape"

text \<open>The context manager \<open>UnwrapTape\<close>: the fields that \<open>__init__\<close> sets.\<close>

record 'a UnwrapTape =
  tape :: nat
  original_params :: "'a pyval list option"
  unwrapped_params :: "'a pyval list option"

definition UnwrapTape_init :: "nat \<Rightarrow> 'a UnwrapTape" where
  "UnwrapTape_init t = \<lparr>tape = t, original_params = None, unwrapped_params = None\<rparr>"

text \<open>
  \<open>__enter__\<close>: assigns the classified set to \<open>tape.trainable_params\<close>, keeps the
  original parameters, and writes the converted ones into the tape. An exception leaves
  the mutations done so far in the store.
\<close>

definition UnwrapTape_enter ::
  "'a UnwrapTape \<Rightarrow> ('s, 'a) store \<Rightarrow> (error + 'a UnwrapTape) \<times> ('s, 'a) store" where
  "UnwrapTape_enter self h =
     (case get_trainable_params (h (tape self)) of (tp, orig) \<Rightarrow>
        let h1 = h(tape self := (h (tape self))\<lparr>trainable_params := tp\<rparr>);
            self1 = self\<lparr>original_params := Some orig\<rparr>;
            unwrapped = convert_to_numpy orig;
            self2 = self1\<lparr>unwrapped_params := Some unwrapped\<rparr>
        in (case set_parameters (h1 (tape self)) unwrapped of
              Inl e \<Rightarrow> (Inl e, h1)
            | Inr t' \<Rightarrow> (Inr self2, h1(tape self := t'))))"

text \<open>
  \<open>__exit__\<close>: writes \<open>_original_params\<close> back with \<open>set_parameters\<close> and returns
  \<open>None\<close>, so a pending exception is never suppressed. It does not touch
  \<open>trainable_params\<close>. Before \<open>__enter__\<close> the field is \<open>None\<close>, which
  \<open>set_parameters\<close> cannot iterate.
\<close>

definition UnwrapTape_exit ::
  "'a UnwrapTape \<Rightarrow> ('s, 'a) store \<Rightarrow> (error + unit) \<times> ('s, 'a) store" where
  "UnwrapTape_exit self h =
     (case original_params self of
        None \<Rightarrow> (Inl TypeError, h)
      | Some orig \<Rightarrow>
          (case set_parameters (h (tape self)) orig of
             Inl e \<Rightarrow> (Inl e, h)
           | Inr t' \<Rightarrow> (Inr (), h(tape self := t'))))"

text \<open>
  The statement \<open>with UnwrapTape(tape) as unwrapped_tape: body\<close>. The body gets the
  address that \<open>__enter__\<close> returns and the store; it returns a value or raises, and may
  mutate the store. An exception of \<open>__exit__\<close> replaces the outcome of the body.
\<close>

definition with_UnwrapTape ::
  "nat \<Rightarrow> (nat \<Rightarrow> ('s, 'a) store \<Rightarrow> (error + 'b) \<times> ('s, 'a) store) \<Rightarrow> ('s, 'a) store
     \<Rightarrow> (error + 'b) \<times> ('s, 'a) store" where
  "with_UnwrapTape t body h =
     (case UnwrapTape_enter (UnwrapTape_init t) h of
        (Inl e, h1) \<Rightarrow> (Inl e, h1)
      | (Inr self, h1) \<Rightarrow>
          (case body (tape self) h1 of (r, h2) \<Rightarrow>
             (case UnwrapTape_exit self h2 of
                (Inl e, h3) \<Rightarrow> (Inl e, h3)
              | (Inr u, h3) \<Rightarrow> (r, h3))))"

section \<open>The batch executor\<close>

text \<open>
  \<open>contextlib.ExitStack\<close>: \<open>enter_context\<close> for each tape in order, pushing the
  context manager (the head of the stack is the last one entered); the first
  \<open>__enter__\<close> that raises stops the loop. On leaving, the managers are popped and
  exited one by one, all of them, and an exception raised by an \<open>__exit__\<close> becomes the
  pending one.
\<close>

fun enter_contexts ::
  "nat list \<Rightarrow> 'a UnwrapTape list \<Rightarrow> ('s, 'a) store
     \<Rightarrow> error option \<times> 'a UnwrapTape list \<times> ('s, 'a) store" where
  "enter_contexts [] stack h = (None, stack, h)"
| "enter_contexts (t # ts) stack h =
     (case UnwrapTape_enter (UnwrapTape_init t) h of
        (Inl e, h') \<Rightarrow> (Some e, stack, h')
      | (Inr self, h') \<Rightarrow> enter_contexts ts (self # stack) h')"

fun exit_contexts ::
  "'a UnwrapTape list \<Rightarrow> error option \<Rightarrow> ('s, 'a) store \<Rightarrow> error option \<times> ('s, 'a) store" where
  "exit_contexts [] exc h = (exc, h)"
| "exit_contexts (self # stack) exc h =
     (case UnwrapTape_exit self h of
        (Inl e, h') \<Rightarrow> exit_contexts stack (Some e) h'
      | (Inr u, h') \<Rightarrow> exit_contexts stack exc h')"

text \<open>
  \<open>_batch_execute\<close>, the forward function of the autograd primitive. The device is an
  external collaborator: a function from the tapes it is handed (their state when it is
  called) to its results or its exception. The arguments \<open>parameters\<close>,
  \<open>gradient_fn\<close>, \<open>cache\<close> and \<open>_n\<close> are not used by the forward function.
\<close>

definition prim_batch_execute ::
  "'p \<Rightarrow> nat list \<Rightarrow> (('s, 'a) QuantumTape list \<Rightarrow> error + 'r list) \<Rightarrow> 'g \<Rightarrow> 'c \<Rightarrow> int
     \<Rightarrow> ('s, 'a) store \<Rightarrow> (error + 'r list) \<times> ('s, 'a) store" where
  "prim_batch_execute params tapes device gradient_fn cache n h =
     (case enter_contexts tapes [] h of (entered, stack, h1) \<Rightarrow>
        let res = (case entered of Some e \<Rightarrow> Inl e | None \<Rightarrow> device (map h1 tapes))
        in (case exit_contexts stack (case res of Inl e \<Rightarrow> Some e | Inr r \<Rightarrow> None) h1 of
              (Some e, h2) \<Rightarrow> (Inl e, h2)
            | (None, h2) \<Rightarrow> (res, h2)))"

text \<open>
  \<open>batch_execute(tapes, device, gradient_fn=None, cache=[], _n=1)\<close>. The optional
  arguments are options: \<open>batch_execute_n\<close> is the value of \<open>_n\<close>, which is 1 when
  the argument is not given, and \<open>expval_grad\<close> is the default gradient function of
  the library, which is not among the sources.
\<close>

definition batch_execute_n :: "int option \<Rightarrow> int" where
  "batch_execute_n n = (case n of None \<Rightarrow> 1 | Some k \<Rightarrow> k)"

definition batch_execute ::
  "'g \<Rightarrow> nat list \<Rightarrow> (('s, 'a) QuantumTape list \<Rightarrow> error + 'r list) \<Rightarrow> 'g option \<Rightarrow> 'c
     \<Rightarrow> int option \<Rightarrow> ('s, 'a) store \<Rightarrow> (error + 'r list) \<times> ('s, 'a) store" where
  "batch_execute expval_grad tapes device gradient_fn cache n h =
     (let gradient_fn = (case gradient_fn of None \<Rightarrow> expval_grad | Some g \<Rightarrow> g);
          params = map (\<lambda>t. get_parameters (h t)) tapes
      in prim_batch_execute params tapes device gradient_fn cache (batch_execute_n n) h)"

text \<open>The tapes as the device sees them: the store after every tape was entered.\<close>

definition unwrapped_tapes :: "nat list \<Rightarrow> ('s, 'a) store \<Rightarrow> ('s, 'a) QuantumTape list" where
  "unwrapped_tapes tapes h = map (snd (snd (enter_contexts tapes [] h))) tapes"

section \<open>The gradient rule\<close>

text \<open>
  The calls that \<open>grad_fn\<close> makes to its collaborators are recorded, in order, in a
  trace: \<open>gradient_fn(t, idx)\<close> with the address of the tape, the recursive
  \<open>batch_execute(gradient_tapes, ..., _n=...)\<close> with the addresses of the gradient tapes
  and the value of \<open>_n\<close>, and \<open>fn(res)\<close> with the slice it is given.
\<close>

datatype 'r event =
    CallGradientFn nat nat
  | CallBatchExecute "nat list" int
  | CallPostprocess "'r list"

text \<open>
  The three lists that the first loop of \<open>grad_fn\<close> fills. The gradient tapes are
  objects: the list holds their addresses. A postprocessing function maps a slice of
  results to a Jacobian column, or raises.
\<close>

record ('r, 'j) grad_state =
  reshape_info :: "nat list"
  gradient_tapes :: "nat list"
  processing_fns :: "('r list \<Rightarrow> error + 'j) list list"
  trace :: "'r event list"

text \<open>
  The gradient function is a collaborator that is handed a tape object: it is given the
  address of the tape, the index and the store, and gives back the store, in which it
  may have created tapes or assigned to existing ones, with either its exception or
  the addresses of the tapes it returns (new tapes, or tapes that exist already, also
  tapes of the batch) and the postprocessing function.

  \<open>for idx, _ in enumerate(t.trainable_params)\<close>: the element of the set is discarded,
  \<open>idx\<close> runs over \<open>0, ..., len(t.trainable_params) - 1\<close> for the set that the tape has
  when the loop starts; \<open>gradient_loop\<close> is the loop over these indices.
  \<open>processing_fns[-1].append(fn)\<close> extends the last group.
\<close>

fun gradient_loop ::
  "(nat \<Rightarrow> nat \<Rightarrow> ('s, 'a) store
      \<Rightarrow> (error + nat list \<times> ('r list \<Rightarrow> error + 'j)) \<times> ('s, 'a) store)
     \<Rightarrow> nat \<Rightarrow> nat list \<Rightarrow> ('r, 'j) grad_state \<Rightarrow> ('s, 'a) store
     \<Rightarrow> (error + ('r, 'j) grad_state) \<times> ('s, 'a) store" where
  "gradient_loop gradient_fn t [] st h = (Inr st, h)"
| "gradient_loop gradient_fn t (idx # idxs) st h =
     (case gradient_fn t idx h of
        (Inl e, h') \<Rightarrow> (Inl e, h')
      | (Inr (g_tapes, fn), h') \<Rightarrow>
          gradient_loop gradient_fn t idxs
            (st\<lparr>reshape_info := reshape_info st @ [length g_tapes],
                gradient_tapes := gradient_tapes st @ g_tapes,
                processing_fns :=
                  butlast (processing_fns st) @ [last (processing_fns st) @ [fn]],
                trace := trace st @ [CallGradientFn t idx]\<rparr>)
            h')"

fun tapes_loop ::
  "(nat \<Rightarrow> nat \<Rightarrow> ('s, 'a) store
      \<Rightarrow> (error + nat list \<times> ('r list \<Rightarrow> error + 'j)) \<times> ('s, 'a) store)
     \<Rightarrow> nat list \<Rightarrow> ('r, 'j) grad_state \<Rightarrow> ('s, 'a) store
     \<Rightarrow> (error + ('r, 'j) grad_state) \<times> ('s, 'a) store" where
  "tapes_loop gradient_fn [] st h = (Inr st, h)"
| "tapes_loop gradient_fn (t # ts) st h =
     (case gradient_loop gradient_fn t [0..<card (trainable_params (h t))]
             (st\<lparr>processing_fns := processing_fns st @ [[]]\<rparr>) h of
        (Inl e, h') \<Rightarrow> (Inl e, h')
      | (Inr st', h') \<Rightarrow> tapes_loop gradient_fn ts st' h')"

text \<open>
  \<open>for fn, res_len in zip(processing_fns[t], reshape_info)\<close>: the slice
  \<open>results[start : start + res_len]\<close> never raises on a list, \<open>start\<close> advances by
  \<open>res_len\<close>, and the column \<open>fn(res)\<close> is appended to \<open>jac\<close>.
\<close>

fun postprocess_loop ::
  "(('r list \<Rightarrow> error + 'j) \<times> nat) list \<Rightarrow> 'r list \<Rightarrow> nat \<Rightarrow> 'j list
     \<Rightarrow> 'r event list \<Rightarrow> error + 'j list \<times> nat \<times> 'r event list" where
  "postprocess_loop [] results start jac tr = Inr (jac, start, tr)"
| "postprocess_loop ((fn, res_len) # rest) results start jac tr =
     (let res = take res_len (drop start results) in
        (case fn res of
           Inl e \<Rightarrow> Inl e
         | Inr col \<Rightarrow>
             postprocess_loop rest results (start + res_len) (jac @ [col])
               (tr @ [CallPostprocess res])))"

text \<open>
  \<open>for t, d in zip(range(len(tapes)), dy)\<close>. A tape without trainable parameters gets
  \<open>None\<close>. \<open>contract d jac num_params\<close> stands for the lines
  \<open>np.reshape\<close>, \<open>np.stack\<close>, \<open>np.transpose\<close>, \<open>np.tensordot\<close> of the numeric library:
  it gives the entry of the tape or raises. The postprocessing functions and the
  numeric library do not touch the tapes, so the loop reads the tapes in the state they
  have when it starts: \<open>tapes\<close> is the list of these states.
\<close>

fun vjp_loop ::
  "('d \<Rightarrow> 'j list \<Rightarrow> nat \<Rightarrow> error + 'a pyval) \<Rightarrow> ('s, 'a) QuantumTape list
     \<Rightarrow> ('r list \<Rightarrow> error + 'j) list list \<Rightarrow> nat list \<Rightarrow> 'r list \<Rightarrow> (nat \<times> 'd) list
     \<Rightarrow> 'a pyval list \<Rightarrow> nat \<Rightarrow> 'r event list
     \<Rightarrow> error + 'a pyval list \<times> 'r event list" where
  "vjp_loop contract tapes fns info results [] vjp start tr = Inr (vjp, tr)"
| "vjp_loop contract tapes fns info results ((t, d) # rest) vjp start tr =
     (let num_params = card (trainable_params (tapes ! t)) in
        if num_params = 0
        then vjp_loop contract tapes fns info results rest (vjp @ [NoneVal]) start tr
        else (case postprocess_loop (zip (fns ! t) info) results start [] tr of
                Inl e \<Rightarrow> Inl e
              | Inr (jac, start', tr') \<Rightarrow>
                  (case contract d jac num_params of
                     Inl e \<Rightarrow> Inl e
                   | Inr v \<Rightarrow>
                       vjp_loop contract tapes fns info results rest (vjp @ [v]) start' tr')))"

text \<open>\<open>[_unwrap_arraybox(v, max_depth=_n) for v in vjp]\<close>.\<close>

fun unwrap_each :: "'a pyval list \<Rightarrow> int \<Rightarrow> error + 'a pyval list" where
  "unwrap_each [] n = Inr []"
| "unwrap_each (v # vs) n =
     (case unwrap_arraybox v (Some n) 0 of
        Inl e \<Rightarrow> Inl e
      | Inr u \<Rightarrow> (case unwrap_each vs n of Inl e \<Rightarrow> Inl e | Inr us \<Rightarrow> Inr (u # us)))"

text \<open>
  \<open>grad_fn(dy)\<close> up to its return statement, with the variables of the closure
  \<open>vjp(ans, parameters, tapes, device, gradient_fn, cache, _n)\<close> as arguments: the list
  \<open>vjp\<close> when the return statement is reached, with the trace of the calls. \<open>tapes\<close> are
  the addresses of the tapes of the forward call. The first loop, the recursive
  \<open>batch_execute\<close> on the gradient tapes and the reads of \<open>trainable_params\<close> in the second
  loop all work on the one store, so a gradient tape that is a tape of the batch is
  entered and reclassified by the recursive call before the second loop reads it. The
  trace records the recursive call with the value of \<open>_n\<close> that \<open>batch_execute\<close> gets.
\<close>

definition grad_fn_vjp ::
  "'g \<Rightarrow> ('d \<Rightarrow> 'j list \<Rightarrow> nat \<Rightarrow> error + 'a pyval)
     \<Rightarrow> nat list \<Rightarrow> (('s, 'a) QuantumTape list \<Rightarrow> error + 'r list)
     \<Rightarrow> (nat \<Rightarrow> nat \<Rightarrow> ('s, 'a) store
          \<Rightarrow> (error + nat list \<times> ('r list \<Rightarrow> error + 'j)) \<times> ('s, 'a) store)
     \<Rightarrow> 'c \<Rightarrow> int \<Rightarrow> 'd list \<Rightarrow> ('s, 'a) store
     \<Rightarrow> (error + 'a pyval list \<times> 'r event list) \<times> ('s, 'a) store" where
  "grad_fn_vjp expval_grad contract tapes device gradient_fn cache n dy h =
     (case tapes_loop gradient_fn tapes
             \<lparr>reshape_info = [], gradient_tapes = [], processing_fns = [], trace = []\<rparr> h of
        (Inl e, h1) \<Rightarrow> (Inl e, h1)
      | (Inr st, h1) \<Rightarrow>
          (let nesting = Some (n + 1) in
             (case batch_execute expval_grad (gradient_tapes st) device None cache nesting h1 of
                (Inl e, h2) \<Rightarrow> (Inl e, h2)
              | (Inr results, h2) \<Rightarrow>
                  (vjp_loop contract (map h2 tapes) (processing_fns st) (reshape_info st)
                     results (zip [0..<length tapes] dy) [] 0
                     (trace st @ [CallBatchExecute (gradient_tapes st) (batch_execute_n nesting)]),
                   h2))))"

text \<open>\<open>grad_fn(dy)\<close>: the return statement unwraps every entry of \<open>vjp\<close> with
  \<open>max_depth=_n\<close>.\<close>

definition grad_fn ::
  "'g \<Rightarrow> ('d \<Rightarrow> 'j list \<Rightarrow> nat \<Rightarrow> error + 'a pyval)
     \<Rightarrow> nat list \<Rightarrow> (('s, 'a) QuantumTape list \<Rightarrow> error + 'r list)
     \<Rightarrow> (nat \<Rightarrow> nat \<Rightarrow> ('s, 'a) store
          \<Rightarrow> (error + nat list \<times> ('r list \<Rightarrow> error + 'j)) \<times> ('s, 'a) store)
     \<Rightarrow> 'c \<Rightarrow> int \<Rightarrow> 'd list \<Rightarrow> ('s, 'a) store
     \<Rightarrow> (error + 'a pyval list \<times> 'r event list) \<times> ('s, 'a) store" where
  "grad_fn expval_grad contract tapes device gradient_fn cache n dy h =
     (case grad_fn_vjp expval_grad contract tapes device gradient_fn cache n dy h of
        (Inl e, h2) \<Rightarrow> (Inl e, h2)
      | (Inr (vjp, tr), h2) \<Rightarrow>
          (case unwrap_each vjp n of
             Inl e \<Rightarrow> (Inl e, h2)
           | Inr vs \<Rightarrow> (Inr (vs, tr), h2)))"

text \<open>\<open>vjp\<close> returns the closure \<open>grad_fn\<close>.\<close>

definition vjp ::
  "'g \<Rightarrow> ('d \<Rightarrow> 'j list \<Rightarrow> nat \<Rightarrow> error + 'a pyval)
     \<Rightarrow> 'r list \<Rightarrow> 'p \<Rightarrow> nat list \<Rightarrow> (('s, 'a) QuantumTape list \<Rightarrow> error + 'r list)
     \<Rightarrow> (nat \<Rightarrow> nat \<Rightarrow> ('s, 'a) store
          \<Rightarrow> (error + nat list \<times> ('r list \<Rightarrow> error + 'j)) \<times> ('s, 'a) store)
     \<Rightarrow> 'c \<Rightarrow> int \<Rightarrow> 'd list \<Rightarrow> ('s, 'a) store
     \<Rightarrow> (error + 'a pyval list \<times> 'r event list) \<times> ('s, 'a) store" where
  "vjp expval_grad contract ans params tapes device gradient_fn cache n =
     (\<lambda>dy. grad_fn expval_grad contract tapes device gradient_fn cache n dy)"

section \<open>Auxiliary notions for the statements\<close>

text \<open>
  The state of a tape inside the scope of \<open>UnwrapTape\<close>, and the store after the tapes
  of a batch were entered one after the other; \<open>__enter__\<close> is shown below to compute
  exactly this.
\<close>

definition unwrap_state :: "('s, 'a) QuantumTape \<Rightarrow> ('s, 'a) QuantumTape" where
  "unwrap_state t = t\<lparr>trainable_params := trainable_from 0 (parameters t),
                      parameters := convert_to_numpy (parameters t)\<rparr>"

fun entered_store :: "nat list \<Rightarrow> ('s, 'a) store \<Rightarrow> ('s, 'a) store" where
  "entered_store [] h = h"
| "entered_store (t # ts) h = entered_store ts (h(t := unwrap_state (h t)))"

text \<open>
  Measuring wrappers: \<open>peel\<close> removes one \<open>ArrayBox\<close> layer if there is one, and
  \<open>box_depth\<close> counts the layers of a value.
\<close>

fun peel :: "'a pyval \<Rightarrow> 'a pyval" where
  "peel (ArrayBox v) = v"
| "peel v = v"

fun box_depth :: "'a pyval \<Rightarrow> nat" where
  "box_depth (ArrayBox v) = Suc (box_depth v)"
| "box_depth v = 0"

text \<open>The \<open>_n\<close> arguments of the \<open>batch_execute\<close> calls of a trace, in order.\<close>

fun event_nesting :: "'r event \<Rightarrow> int list" where
  "event_nesting (CallBatchExecute ts n) = [n]"
| "event_nesting e = []"

definition nesting_of_calls :: "'r event list \<Rightarrow> int list" where
  "nesting_of_calls tr = concat (map event_nesting tr)"

section \<open>Nuclear repulsion energy\<close>

text \<open>
  Modelled from the spec: \<open>nuclear_energy\<close> of \<open>pennylane/hf/hartree_fock.py\<close> is not
  among the sources (only its test is). \<open>nuclear_energy(nuclear_charges,
  coordinates)\<close> returns a function of the coordinates that computes the pairwise nuclear
  Coulomb repulsion, the sum over atom pairs of \<open>Z_i * Z_j / distance_ij\<close>, with the
  Euclidean distance. The numbers are real numbers here; \<open>charges\<close> has one entry per
  atom, and the returned function computes from the coordinates it is given.
\<close>

definition distance :: "real list \<Rightarrow> real list \<Rightarrow> real" where
  "distance r1 r2 = sqrt (\<Sum>(x, y)\<leftarrow>zip r1 r2. (x - y)\<^sup>2)"

definition nuclear_energy :: "int list \<Rightarrow> real list list \<Rightarrow> real list list \<Rightarrow> real" where
  "nuclear_energy charges r coor =
     (\<Sum>i\<leftarrow>[0..<length coor]. \<Sum>j\<leftarrow>[Suc i..<length coor].
        real_of_int (charges ! i * charges ! j) / distance (coor ! i) (coor ! j))"


section \<open>Properties of the unwrap layer\<close>

lemma unbox_unwrap_arraybox:
  "unwrap_arraybox (ArrayBox val) None n = Inr (unbox (ArrayBox val))"
  by (induction val arbitrary: n) (simp_all add: unwrap_arraybox.simps)

text \<open>
  C7. For the parameters \<open>[tensor(x, requires_grad=True), y, tensor(z,
  requires_grad=True)]\<close> (the spec's \<open>x = 0.1\<close>, \<open>y = 0.2\<close>, \<open>z = 0.3\<close>),
  \<open>get_trainable_params\<close> returns the trainable set \<open>{0, 2}\<close> together with the
  original parameters, and \<open>convert_to_numpy\<close> yields the plain \<open>[x, y, z]\<close>: the
  non-trainable middle value is passed through unchanged.
\<close>

theorem unwrap_correctness:
  "get_trainable_params
      \<lparr>operations = s, parameters = [Tensor x True, Plain y, Tensor z True],
       trainable_params = tp\<rparr>
     = ({0, 2}, [Tensor x True, Plain y, Tensor z True])
   \<and> convert_to_numpy [Tensor x True, Plain y, Tensor z True] = [Plain x, Plain y, Plain z]
   \<and> convert_to_numpy [Tensor (0.1::real) True, Plain 0.2, Tensor 0.3 True] ! 1 = Plain 0.2"
  by (auto simp: get_trainable_params_def convert_to_numpy_def)

section \<open>Properties of scoped unwrapping and of the batch executor\<close>

lemma length_convert_to_numpy [simp]: "length (convert_to_numpy ps) = length ps"
  by (simp add: convert_to_numpy_def)

lemma UnwrapTape_enter_init:
  "UnwrapTape_enter (UnwrapTape_init t) h =
     (Inr \<lparr>tape = t, original_params = Some (parameters (h t)),
           unwrapped_params = Some (convert_to_numpy (parameters (h t)))\<rparr>,
      h(t := unwrap_state (h t)))"
  by (simp add: UnwrapTape_enter_def UnwrapTape_init_def get_trainable_params_def
      set_parameters_def unwrap_state_def Let_def)

lemma length_parameters_unwrap_state [simp]:
  "length (parameters (unwrap_state t)) = length (parameters t)"
  by (simp add: unwrap_state_def)

lemma enter_exit_contexts:
  "\<exists>new. enter_contexts ts stack h = (None, new @ stack, entered_store ts h)
     \<and> (\<forall>exc. exit_contexts (new @ stack) exc (entered_store ts h)
            = exit_contexts stack exc
                (\<lambda>a. (entered_store ts h a)\<lparr>parameters := parameters (h a)\<rparr>))"
proof (induction ts arbitrary: stack h)
  case Nil
  show ?case by simp
next
  case (Cons t ts)
  let ?self = "\<lparr>tape = t, original_params = Some (parameters (h t)),
           unwrapped_params = Some (convert_to_numpy (parameters (h t)))\<rparr>"
  let ?h' = "h(t := unwrap_state (h t))"
  let ?h1 = "entered_store ts ?h'"
  from Cons.IH [of "?self # stack" ?h'] obtain new where
    ent: "enter_contexts ts (?self # stack) ?h' = (None, new @ ?self # stack, ?h1)" and
    ex: "\<And>exc. exit_contexts (new @ ?self # stack) exc ?h1
            = exit_contexts (?self # stack) exc (\<lambda>a. (?h1 a)\<lparr>parameters := parameters (?h' a)\<rparr>)"
    by blast
  let ?h2 = "\<lambda>a. (?h1 a)\<lparr>parameters := parameters (?h' a)\<rparr>"
  have step: "UnwrapTape_exit ?self ?h2
      = (Inr (), ?h2(t := (?h2 t)\<lparr>parameters := parameters (h t)\<rparr>))"
    by (simp add: UnwrapTape_exit_def set_parameters_def)
  have final: "?h2(t := (?h2 t)\<lparr>parameters := parameters (h t)\<rparr>)
      = (\<lambda>a. (?h1 a)\<lparr>parameters := parameters (h a)\<rparr>)"
    by (rule ext) simp
  have "enter_contexts (t # ts) stack h = (None, (new @ [?self]) @ stack, entered_store (t # ts) h)"
    using ent by (simp add: UnwrapTape_enter_init)
  moreover have "\<forall>exc. exit_contexts ((new @ [?self]) @ stack) exc (entered_store (t # ts) h)
      = exit_contexts stack exc (\<lambda>a. (entered_store (t # ts) h a)\<lparr>parameters := parameters (h a)\<rparr>)"
    using ex step final by simp
  ultimately show ?case by blast
qed

lemma prim_batch_execute_eq:
  "prim_batch_execute params tapes device gradient_fn cache n h =
     (device (map (entered_store tapes h) tapes),
      \<lambda>a. (entered_store tapes h a)\<lparr>parameters := parameters (h a)\<rparr>)"
proof -
  from enter_exit_contexts [of tapes "[]" h] obtain new where
    ent: "enter_contexts tapes [] h = (None, new, entered_store tapes h)" and
    ex: "\<And>exc. exit_contexts new exc (entered_store tapes h)
            = (exc, \<lambda>a. (entered_store tapes h a)\<lparr>parameters := parameters (h a)\<rparr>)"
    by auto
  show ?thesis
    by (cases "device (map (entered_store tapes h) tapes)")
       (simp_all add: prim_batch_execute_def ent ex)
qed

lemma unwrapped_tapes_eq: "unwrapped_tapes tapes h = map (entered_store tapes h) tapes"
  using enter_exit_contexts [of tapes "[]" h] by (auto simp: unwrapped_tapes_def)

lemma entered_store_agree:
  assumes "\<forall>a\<in>set ts. parameters (h a) = parameters (h' a) \<and> operations (h a) = operations (h' a)"
    and "\<forall>a\<in>B. h a = h' a"
  shows "\<forall>a\<in>set ts \<union> B. entered_store ts h a = entered_store ts h' a"
  using assms
proof (induction ts arbitrary: h h' B)
  case Nil
  then show ?case by simp
next
  case (Cons t ts)
  let ?k = "h(t := unwrap_state (h t))"
  let ?k' = "h'(t := unwrap_state (h' t))"
  have same: "unwrap_state (h t) = unwrap_state (h' t)"
    using Cons.prems(1) by (simp add: unwrap_state_def)
  have p1: "\<forall>a\<in>set ts. parameters (?k a) = parameters (?k' a) \<and> operations (?k a) = operations (?k' a)"
    using Cons.prems(1) same by simp
  have p2: "\<forall>a\<in>insert t B. ?k a = ?k' a"
    using Cons.prems(2) same by simp
  have "\<forall>a\<in>set ts \<union> insert t B. entered_store ts ?k a = entered_store ts ?k' a"
    using Cons.IH [of ?k ?k' "insert t B"] p1 p2 by blast
  moreover have "set (t # ts) \<union> B = set ts \<union> insert t B" by auto
  ultimately show ?case by (simp only: entered_store.simps)
qed


text \<open>
  C1, in the form that holds. Whatever the body of the block does, as long as it keeps the number of
  parameters of the tape and does not assign \<open>trainable_params\<close>: when the block is left,
  by a normal return or by an exception of the body, the full parameter list of the tape
  is the one from before the block, the outcome of the body (value or exception) is the
  outcome of the block, and \<open>trainable_params\<close> is the set that
  \<open>get_trainable_params\<close> computes from the original parameters. \<open>__exit__\<close> does not
  restore \<open>trainable_params\<close>.
\<close>

theorem UnwrapTape_round_trip:
  assumes "\<forall>h'. length (parameters (snd (body t h') t)) = length (parameters (h' t))"
    and "\<forall>h'. trainable_params (snd (body t h') t) = trainable_params (h' t)"
  shows "parameters (snd (with_UnwrapTape t body h) t) = parameters (h t)
       \<and> trainable_params (snd (with_UnwrapTape t body h) t) = fst (get_trainable_params (h t))
       \<and> fst (with_UnwrapTape t body h)
           = fst (body t (snd (UnwrapTape_enter (UnwrapTape_init t) h)))"
proof -
  let ?h1 = "h(t := unwrap_state (h t))"
  obtain r h2 where b: "body t ?h1 = (r, h2)" by (cases "body t ?h1")
  have len: "length (parameters (h2 t)) = length (parameters (h t))"
    using assms(1) [rule_format, of ?h1] b by simp
  have tp: "trainable_params (h2 t) = trainable_from 0 (parameters (h t))"
    using assms(2) [rule_format, of ?h1] b by (simp add: unwrap_state_def)
  have ex: "UnwrapTape_exit \<lparr>tape = t, original_params = Some (parameters (h t)),
           unwrapped_params = Some (convert_to_numpy (parameters (h t)))\<rparr> h2
      = (Inr (), h2(t := (h2 t)\<lparr>parameters := parameters (h t)\<rparr>))"
    using len by (simp add: UnwrapTape_exit_def set_parameters_def)
  have w: "with_UnwrapTape t body h = (r, h2(t := (h2 t)\<lparr>parameters := parameters (h t)\<rparr>))"
    by (simp add: with_UnwrapTape_def UnwrapTape_enter_init b ex)
  show ?thesis
    by (simp add: w tp get_trainable_params_def UnwrapTape_enter_init b Let_def)
qed

theorem UnwrapTape_round_trip_witness:
  "parameters (snd (with_UnwrapTape 0 (\<lambda>t h. (Inl (Raised ''DeviceError'') :: error + unit, h))
       (\<lambda>a. \<lparr>operations = (), parameters = [Tensor (1::int) True, Plain 2, ArrayBox (Plain 3)],
               trainable_params = {0, 2}\<rparr>)) 0)
     = [Tensor 1 True, Plain 2, ArrayBox (Plain 3)]
   \<and> trainable_params (snd (with_UnwrapTape 0 (\<lambda>t h. (Inl (Raised ''DeviceError'') :: error + unit, h))
       (\<lambda>a. \<lparr>operations = (), parameters = [Tensor (1::int) True, Plain 2, ArrayBox (Plain 3)],
               trainable_params = {0, 2}\<rparr>)) 0) = {0, 2}
   \<and> fst (with_UnwrapTape 0 (\<lambda>t h. (Inl (Raised ''DeviceError'') :: error + unit, h))
       (\<lambda>a. \<lparr>operations = (), parameters = [Tensor (1::int) True, Plain 2, ArrayBox (Plain 3)],
               trainable_params = {0, 2}\<rparr>)) = Inl (Raised ''DeviceError'')"
  using UnwrapTape_round_trip [of "\<lambda>t h. (Inl (Raised ''DeviceError'') :: error + unit, h)" 0
      "\<lambda>a. \<lparr>operations = (), parameters = [Tensor (1::int) True, Plain 2, ArrayBox (Plain 3)],
               trainable_params = {0, 2}\<rparr>"]
  by (simp add: get_trainable_params_def Let_def numeral_2_eq_2)

text \<open>
  C1 as stated fails: a tape with the parameters \<open>[tensor(1, requires_grad=True), 2,
  tensor(3, requires_grad=True)]\<close> and \<open>trainable_params = {0, 1, 2}\<close> leaves the block
  with \<open>trainable_params = {0, 2}\<close>.
\<close>

theorem UnwrapTape_round_trip_counterexample:
  "trainable_params (snd (with_UnwrapTape 0 (\<lambda>t h. (Inr (), h))
       (\<lambda>a. \<lparr>operations = (), parameters = [Tensor (1::int) True, Plain 2, Tensor 3 True],
               trainable_params = {0, 1, 2}\<rparr>)) 0) = {0, 2}
   \<and> trainable_params (snd (with_UnwrapTape 0 (\<lambda>t h. (Inr (), h))
       (\<lambda>a. \<lparr>operations = (), parameters = [Tensor (1::int) True, Plain 2, Tensor 3 True],
               trainable_params = {0, 1, 2}\<rparr>)) 0)
     \<noteq> trainable_params \<lparr>operations = (), parameters = [Tensor (1::int) True, Plain 2, Tensor 3 True],
               trainable_params = {0, 1, 2}\<rparr>"
  by (simp add: with_UnwrapTape_def UnwrapTape_enter_def UnwrapTape_init_def UnwrapTape_exit_def
      get_trainable_params_def set_parameters_def convert_to_numpy_def Let_def) auto

text \<open>
  C6, in the form that holds. \<open>batch_execute\<close> does not check its \<open>tapes\<close> argument: its outcome is
  the outcome of \<open>device.batch_execute\<close> on the unwrapped tapes, a result list or the
  device's exception unchanged; for an empty sequence it is what the device returns for
  the empty list, and the store is untouched.
\<close>

theorem batch_execute_device_outcome:
  "fst (batch_execute expval_grad tapes device gradient_fn cache n h)
     = device (unwrapped_tapes tapes h)
   \<and> batch_execute expval_grad [] device gradient_fn cache n h = (device [], h)"
  by (simp add: batch_execute_def prim_batch_execute_eq unwrapped_tapes_eq Let_def)

text \<open>
  C6 as stated fails: with a device that returns the empty list for the empty batch,
  \<open>batch_execute\<close> on no tapes returns that list and raises nothing.
\<close>

theorem batch_execute_empty_counterexample:
  "fst (batch_execute () [] (\<lambda>ts. Inr ([] :: nat list)) None () None
     (\<lambda>a. \<lparr>operations = (), parameters = ([] :: int pyval list), trainable_params = {}\<rparr>))
   = Inr []"
  by (simp add: batch_execute_def prim_batch_execute_def Let_def)

lemma operations_entered_store: "operations (entered_store ts k a) = operations (k a)"
  by (induction ts arbitrary: k) (simp_all add: unwrap_state_def)

lemma fst_batch_execute:
  "fst (batch_execute expval_grad tapes device gradient_fn cache n h)
     = device (map (entered_store tapes h) tapes)"
  by (simp add: batch_execute_def prim_batch_execute_eq Let_def)

lemma snd_batch_execute:
  "snd (batch_execute expval_grad tapes device gradient_fn cache n h)
     = (\<lambda>a. (entered_store tapes h a)\<lparr>parameters := parameters (h a)\<rparr>)"
  by (simp add: batch_execute_def prim_batch_execute_eq Let_def)

text \<open>
  C8. The device is a function. For the same list of tapes, two stores that give every
  tape of the list the same operations and the same parameter values give the same
  result of \<open>batch_execute\<close>, whatever \<open>trainable_params\<close>, the gradient function, the
  cache and \<open>_n\<close> are; and a second call, on the store that the first call leaves,
  returns what the first call returned.
\<close>

theorem batch_execute_deterministic:
  assumes "\<forall>t\<in>set tapes. parameters (h t) = parameters (h' t)
                       \<and> operations (h t) = operations (h' t)"
  shows "fst (batch_execute expval_grad tapes device gradient_fn cache n h)
           = fst (batch_execute expval_grad' tapes device gradient_fn' cache' n' h')
       \<and> fst (batch_execute expval_grad tapes device gradient_fn cache n
                (snd (batch_execute expval_grad tapes device gradient_fn cache n h)))
           = fst (batch_execute expval_grad tapes device gradient_fn cache n h)"
proof -
  have agree: "map (entered_store tapes k) tapes = map (entered_store tapes k') tapes"
    if "\<forall>t\<in>set tapes. parameters (k t) = parameters (k' t) \<and> operations (k t) = operations (k' t)"
    for k k'
    using entered_store_agree [of tapes k k' "{}"] that by simp
  let ?h2 = "\<lambda>a. (entered_store tapes h a)\<lparr>parameters := parameters (h a)\<rparr>"
  have restored: "\<forall>t\<in>set tapes. parameters (?h2 t) = parameters (h t) \<and> operations (?h2 t) = operations (h t)"
    by (simp add: operations_entered_store)
  show ?thesis
    by (simp only: fst_batch_execute snd_batch_execute agree [OF assms] agree [OF restored])
qed


theorem batch_execute_deterministic_witness:
  "fst (batch_execute () [0, 1, 0] (\<lambda>ts. Inr (map parameters ts)) None () None
          (\<lambda>a. \<lparr>operations = a, parameters = [Tensor (1::int) True, Plain 2],
                  trainable_params = {}\<rparr>))
     = fst (batch_execute () [0, 1, 0] (\<lambda>ts. Inr (map parameters ts)) (Some ()) () (Some 2)
          (\<lambda>a. \<lparr>operations = a, parameters = [Tensor (1::int) True, Plain 2],
                  trainable_params = {0, 1}\<rparr>))"
  using batch_execute_deterministic [of "[0, 1, 0]"
      "\<lambda>a. \<lparr>operations = a, parameters = [Tensor (1::int) True, Plain 2], trainable_params = {}\<rparr>"
      "\<lambda>a. \<lparr>operations = a, parameters = [Tensor (1::int) True, Plain 2], trainable_params = {0, 1}\<rparr>"
      "()" "\<lambda>ts. Inr (map parameters ts)" None "()" None "()" "Some ()" "()" "Some 2"]
  by simp

section \<open>Properties of the wrapper functions\<close>

lemma nesting_of_calls_simps [simp]:
  "nesting_of_calls [] = []"
  "nesting_of_calls (xs @ ys) = nesting_of_calls xs @ nesting_of_calls ys"
  "nesting_of_calls (e # es) = event_nesting e @ nesting_of_calls es"
  by (simp_all add: nesting_of_calls_def)


lemma peel_not_box: "\<not> is_ArrayBox v \<Longrightarrow> (peel ^^ m) v = v"
  by (induction m) (cases v; simp)+

lemma unwrap_arraybox_peel:
  "k \<le> n \<Longrightarrow> unwrap_arraybox (ArrayBox val) (Some n) k = Inr ((peel ^^ nat (n - k)) (ArrayBox val))"
proof (induction val arbitrary: k)
  case (ArrayBox w)
  show ?case
  proof (cases "k = n")
    case True
    then show ?thesis by (simp add: unwrap_arraybox.simps)
  next
    case False
    with ArrayBox.prems have lt: "k + 1 \<le> n" by simp
    have "nat (n - k) = Suc (nat (n - (k + 1)))" using lt by simp
    then have "(peel ^^ nat (n - k)) (ArrayBox (ArrayBox w)) = (peel ^^ nat (n - (k + 1))) (ArrayBox w)"
      by (simp add: funpow_swap1)
    with ArrayBox.IH [OF lt] False show ?thesis
      by (simp add: unwrap_arraybox.simps [of "ArrayBox (ArrayBox w)"])
  qed
next
  case NoneVal
  show ?case
  proof (cases "k = n")
    case True then show ?thesis by (simp add: unwrap_arraybox.simps)
  next
    case False
    with NoneVal have "nat (n - k) = Suc (nat (n - (k + 1)))" by simp
    then show ?thesis using False
      by (simp add: unwrap_arraybox.simps funpow_swap1 peel_not_box)
  qed
next
  case (Plain x)
  show ?case
  proof (cases "k = n")
    case True then show ?thesis by (simp add: unwrap_arraybox.simps)
  next
    case False
    with Plain have "nat (n - k) = Suc (nat (n - (k + 1)))" by simp
    then show ?thesis using False
      by (simp add: unwrap_arraybox.simps funpow_swap1 peel_not_box)
  qed
next
  case (Tensor x b)
  show ?case
  proof (cases "k = n")
    case True then show ?thesis by (simp add: unwrap_arraybox.simps)
  next
    case False
    with Tensor have "nat (n - k) = Suc (nat (n - (k + 1)))" by simp
    then show ?thesis using False
      by (simp add: unwrap_arraybox.simps funpow_swap1 peel_not_box)
  qed
qed

lemma box_depth_peel: "box_depth ((peel ^^ m) v) = box_depth v - m"
proof (induction m arbitrary: v)
  case 0
  show ?case by simp
next
  case (Suc m)
  show ?case using Suc [of "peel v"] by (cases v) (simp_all add: funpow_swap1)
qed


lemma unwrap_arraybox_box_peel:
  "is_ArrayBox v \<Longrightarrow> 0 \<le> n \<Longrightarrow> unwrap_arraybox v (Some n) 0 = Inr ((peel ^^ nat n) v)"
  using unwrap_arraybox_peel [of 0 n] by (cases v) simp_all

lemma unwrap_each_peel:
  "\<forall>v\<in>set ws. is_ArrayBox v \<Longrightarrow> 0 \<le> n \<Longrightarrow> unwrap_each ws n = Inr (map (peel ^^ nat n) ws)"
  by (induction ws) (simp_all add: unwrap_arraybox_box_peel)


section \<open>Properties of the gradient rule\<close>

subsection \<open>The final unwrapping\<close>

lemma unwrap_arraybox_returned:
  assumes "0 \<le> n" and "unwrap_arraybox w (Some n) 0 = Inr u"
  shows "u = (peel ^^ nat n) w"
proof (cases "n = 0")
  case True
  with assms(2) show ?thesis by (simp add: unwrap_arraybox.simps)
next
  case False
  with assms(2) obtain val where w: "w = ArrayBox val"
    by (cases w) (simp_all add: unwrap_arraybox.simps)
  from unwrap_arraybox_peel [of 0 n val] assms show ?thesis by (simp add: w)
qed

lemma unwrap_each_returned:
  "0 \<le> n \<Longrightarrow> unwrap_each ws n = Inr vs \<Longrightarrow> vs = map (peel ^^ nat n) ws"
proof (induction ws arbitrary: vs)
  case Nil
  then show ?case by simp
next
  case (Cons w ws)
  from Cons.prems(2) obtain u us where
    u: "unwrap_arraybox w (Some n) 0 = Inr u" and us: "unwrap_each ws n = Inr us"
    and vs: "vs = u # us"
    by (auto split: sum.splits)
  from unwrap_arraybox_returned [OF Cons.prems(1) u] Cons.IH [OF Cons.prems(1) us] vs
  show ?case by simp
qed


lemma unwrap_each_None:
  "NoneVal \<in> set ws \<Longrightarrow> n \<noteq> 0 \<Longrightarrow> isl (unwrap_each ws n)"
proof (induction ws)
  case Nil
  then show ?case by simp
next
  case (Cons v ws)
  show ?case
  proof (cases "v = NoneVal")
    case True
    with Cons.prems(2) show ?thesis by (simp add: unwrap_arraybox.simps)
  next
    case False
    with Cons have "isl (unwrap_each ws n)" by simp
    then show ?thesis by (auto split: sum.splits)
  qed
qed

subsection \<open>The loop that generates the gradient tapes\<close>

lemma gradient_loop_frame:
  assumes "\<forall>t idx k. trainable_params (snd (gradient_fn t idx k) a) = trainable_params (k a)"
  shows "trainable_params (snd (gradient_loop gradient_fn t idxs st h) a) = trainable_params (h a)"
proof (induction idxs arbitrary: st h)
  case Nil
  show ?case by simp
next
  case (Cons idx idxs)
  obtain r h' where g: "gradient_fn t idx h = (r, h')" by (cases "gradient_fn t idx h")
  have f: "trainable_params (h' a) = trainable_params (h a)"
    using assms [rule_format, of t idx h] g by simp
  show ?case
  proof (cases r)
    case (Inl e)
    then show ?thesis using g f by simp
  next
    case (Inr p)
    obtain g_tapes fn where p: "p = (g_tapes, fn)" by (cases p)
    show ?thesis using Inr p g f Cons.IH by simp
  qed
qed

lemma tapes_loop_frame:
  assumes "\<forall>t idx k. trainable_params (snd (gradient_fn t idx k) a) = trainable_params (k a)"
  shows "trainable_params (snd (tapes_loop gradient_fn tapes st h) a) = trainable_params (h a)"
proof (induction tapes arbitrary: st h)
  case Nil
  show ?case by simp
next
  case (Cons t tapes)
  let ?st = "st\<lparr>processing_fns := processing_fns st @ [[]]\<rparr>"
  obtain r h' where g: "gradient_loop gradient_fn t [0..<card (trainable_params (h t))] ?st h = (r, h')"
    by (cases "gradient_loop gradient_fn t [0..<card (trainable_params (h t))] ?st h")
  have f: "trainable_params (h' a) = trainable_params (h a)"
    using gradient_loop_frame [of gradient_fn a t "[0..<card (trainable_params (h t))]" ?st h] assms g
    by simp
  show ?case
  proof (cases r)
    case (Inl e)
    then show ?thesis using g f by simp
  next
    case (Inr st')
    then show ?thesis using g f Cons.IH by simp
  qed
qed

lemma gradient_loop_returns:
  assumes "\<forall>idx\<in>set idxs. \<forall>k. \<not> isl (fst (gradient_fn t idx k))"
  shows "\<exists>st' h'. gradient_loop gradient_fn t idxs st h = (Inr st', h')
          \<and> trace st' = trace st @ map (CallGradientFn t) idxs"
  using assms
proof (induction idxs arbitrary: st h)
  case Nil
  show ?case by simp
next
  case (Cons idx idxs)
  obtain r h' where g: "gradient_fn t idx h = (r, h')" by (cases "gradient_fn t idx h")
  from Cons.prems have "\<not> isl (fst (gradient_fn t idx h))" by simp
  with g obtain g_tapes fn where r: "r = Inr (g_tapes, fn)"
    by (cases r) auto
  let ?st = "st\<lparr>reshape_info := reshape_info st @ [length g_tapes],
                gradient_tapes := gradient_tapes st @ g_tapes,
                processing_fns := butlast (processing_fns st) @ [last (processing_fns st) @ [fn]],
                trace := trace st @ [CallGradientFn t idx]\<rparr>"
  from Cons.IH [of ?st h'] Cons.prems obtain st' h'' where
    "gradient_loop gradient_fn t idxs ?st h' = (Inr st', h'')"
    "trace st' = trace ?st @ map (CallGradientFn t) idxs" by auto
  then show ?case by (simp add: g r)
qed

lemma tapes_loop_returns:
  assumes "\<forall>t\<in>set tapes. \<forall>idx<card (trainable_params (h t)). \<forall>k.
            \<not> isl (fst (gradient_fn t idx k))"
    and "\<forall>t idx k. \<forall>a\<in>set tapes.
            trainable_params (snd (gradient_fn t idx k) a) = trainable_params (k a)"
  shows "\<exists>st' h'. tapes_loop gradient_fn tapes st h = (Inr st', h')
          \<and> trace st' = trace st
               @ concat (map (\<lambda>t. map (CallGradientFn t) [0..<card (trainable_params (h t))])
                           tapes)"
  using assms
proof (induction tapes arbitrary: st h)
  case Nil
  show ?case by simp
next
  case (Cons t tapes)
  let ?st = "st\<lparr>processing_fns := processing_fns st @ [[]]\<rparr>"
  let ?idxs = "[0..<card (trainable_params (h t))]"
  have nr: "\<forall>idx\<in>set ?idxs. \<forall>k. \<not> isl (fst (gradient_fn t idx k))"
    using Cons.prems(1) by simp
  from gradient_loop_returns [of ?idxs gradient_fn t ?st h] nr obtain st1 h1 where
    s1: "gradient_loop gradient_fn t ?idxs ?st h = (Inr st1, h1)"
    and t1: "trace st1 = trace ?st @ map (CallGradientFn t) ?idxs"
    by blast
  have fr: "trainable_params (h1 a) = trainable_params (h a)" if "a \<in> set tapes" for a
  proof -
    have "\<forall>t idx k. trainable_params (snd (gradient_fn t idx k) a) = trainable_params (k a)"
      using Cons.prems(2) that by simp
    from gradient_loop_frame [of gradient_fn a t ?idxs ?st h] this s1 show ?thesis by simp
  qed
  have p: "\<forall>t idx k. \<forall>a\<in>set tapes.
            trainable_params (snd (gradient_fn t idx k) a) = trainable_params (k a)"
    using Cons.prems(2) by simp
  have q: "\<forall>t\<in>set tapes. \<forall>idx<card (trainable_params (h1 t)). \<forall>k.
            \<not> isl (fst (gradient_fn t idx k))"
    using Cons.prems(1) fr by simp
  from Cons.IH [OF q p, of st1] obtain st' h' where
    r: "tapes_loop gradient_fn tapes st1 h1 = (Inr st', h')"
    and t2: "trace st' = trace st1
       @ concat (map (\<lambda>t. map (CallGradientFn t) [0..<card (trainable_params (h1 t))]) tapes)"
    by blast
  have eq: "map (\<lambda>t. map (CallGradientFn t) [0..<card (trainable_params (h1 t))]) tapes
      = map (\<lambda>t. map (CallGradientFn t) [0..<card (trainable_params (h t))]) tapes"
    using fr by simp
  have "trace st' = trace st1
       @ concat (map (\<lambda>t. map (CallGradientFn t) [0..<card (trainable_params (h t))]) tapes)"
    using t2 unfolding eq .
  with r show ?case by (simp add: s1 t1)
qed

lemma gradient_loop_nesting:
  "gradient_loop gradient_fn t idxs st h = (Inr st', h')
     \<Longrightarrow> nesting_of_calls (trace st') = nesting_of_calls (trace st)"
proof (induction idxs arbitrary: st h)
  case Nil
  then show ?case by simp
next
  case (Cons idx idxs)
  obtain r h1 where g: "gradient_fn t idx h = (r, h1)" by (cases "gradient_fn t idx h")
  with Cons.prems obtain g_tapes fn where r: "r = Inr (g_tapes, fn)"
    by (cases r) auto
  let ?st = "st\<lparr>reshape_info := reshape_info st @ [length g_tapes],
                gradient_tapes := gradient_tapes st @ g_tapes,
                processing_fns := butlast (processing_fns st) @ [last (processing_fns st) @ [fn]],
                trace := trace st @ [CallGradientFn t idx]\<rparr>"
  have "gradient_loop gradient_fn t idxs ?st h1 = (Inr st', h')"
    using Cons.prems by (simp add: g r)
  from Cons.IH [OF this] show ?case by simp
qed

lemma tapes_loop_nesting:
  "tapes_loop gradient_fn tapes st h = (Inr st', h')
     \<Longrightarrow> nesting_of_calls (trace st') = nesting_of_calls (trace st)"
proof (induction tapes arbitrary: st h)
  case Nil
  then show ?case by simp
next
  case (Cons t tapes)
  let ?st = "st\<lparr>processing_fns := processing_fns st @ [[]]\<rparr>"
  obtain r h1 where g: "gradient_loop gradient_fn t [0..<card (trainable_params (h t))] ?st h = (r, h1)"
    by (cases "gradient_loop gradient_fn t [0..<card (trainable_params (h t))] ?st h")
  with Cons.prems obtain st1 where r: "r = Inr st1" by (cases r) auto
  have run: "tapes_loop gradient_fn tapes st1 h1 = (Inr st', h')"
    using Cons.prems by (simp add: g r)
  from Cons.IH [OF run]
    gradient_loop_nesting [of gradient_fn t "[0..<card (trainable_params (h t))]" ?st h st1 h1] g r
  show ?case by simp
qed

text \<open>An address that \<open>gradient_fn\<close> never returns is not among the gradient tapes.\<close>

lemma gradient_loop_avoids:
  assumes "gradient_loop gradient_fn t idxs st h = (Inr st', h')"
    and "\<forall>t idx k gs fn. fst (gradient_fn t idx k) = Inr (gs, fn) \<longrightarrow> a \<notin> set gs"
    and "a \<notin> set (gradient_tapes st)"
  shows "a \<notin> set (gradient_tapes st')"
  using assms(1,3)
proof (induction idxs arbitrary: st h)
  case Nil
  then show ?case by simp
next
  case (Cons idx idxs)
  obtain r h1 where g: "gradient_fn t idx h = (r, h1)" by (cases "gradient_fn t idx h")
  with Cons.prems(1) obtain g_tapes fn where r: "r = Inr (g_tapes, fn)"
    by (cases r) auto
  have "a \<notin> set g_tapes" using assms(2) [rule_format, of t idx h g_tapes fn] g r by simp
  let ?st = "st\<lparr>reshape_info := reshape_info st @ [length g_tapes],
                gradient_tapes := gradient_tapes st @ g_tapes,
                processing_fns := butlast (processing_fns st) @ [last (processing_fns st) @ [fn]],
                trace := trace st @ [CallGradientFn t idx]\<rparr>"
  have run: "gradient_loop gradient_fn t idxs ?st h1 = (Inr st', h')"
    using Cons.prems(1) by (simp add: g r)
  have "a \<notin> set (gradient_tapes ?st)" using Cons.prems(2) \<open>a \<notin> set g_tapes\<close> by simp
  from Cons.IH [OF run this] show ?case .
qed

lemma tapes_loop_avoids:
  assumes "tapes_loop gradient_fn tapes st h = (Inr st', h')"
    and "\<forall>t idx k gs fn. fst (gradient_fn t idx k) = Inr (gs, fn) \<longrightarrow> a \<notin> set gs"
    and "a \<notin> set (gradient_tapes st)"
  shows "a \<notin> set (gradient_tapes st')"
  using assms(1,3)
proof (induction tapes arbitrary: st h)
  case Nil
  then show ?case by simp
next
  case (Cons t tapes)
  let ?st = "st\<lparr>processing_fns := processing_fns st @ [[]]\<rparr>"
  obtain r h1 where g: "gradient_loop gradient_fn t [0..<card (trainable_params (h t))] ?st h = (r, h1)"
    by (cases "gradient_loop gradient_fn t [0..<card (trainable_params (h t))] ?st h")
  with Cons.prems(1) obtain st1 where r: "r = Inr st1" by (cases r) auto
  have run: "tapes_loop gradient_fn tapes st1 h1 = (Inr st', h')"
    using Cons.prems(1) by (simp add: g r)
  have "a \<notin> set (gradient_tapes ?st)" using Cons.prems(2) by simp
  from gradient_loop_avoids [of gradient_fn t "[0..<card (trainable_params (h t))]" ?st h st1 h1 a]
    assms(2) this g r
  have "a \<notin> set (gradient_tapes st1)" by simp
  from Cons.IH [OF run this] show ?case .
qed

subsection \<open>The loop that consumes the results\<close>

lemma take_Suc_snoc:
  assumes "take (Suc (length ws)) ws' = ws @ [x]"
  shows "take (length ws) ws' = ws"
proof -
  have "take (length ws) ws' = take (length ws) (take (Suc (length ws)) ws')" by simp
  also have "\<dots> = take (length ws) (ws @ [x])" by (simp only: assms)
  also have "\<dots> = ws" by simp
  finally show ?thesis .
qed

lemma postprocess_loop_nesting:
  "postprocess_loop zs results start jac tr = Inr (jac', start', tr')
     \<Longrightarrow> nesting_of_calls tr' = nesting_of_calls tr"
proof (induction zs arbitrary: start jac tr)
  case Nil
  then show ?case by simp
next
  case (Cons p zs)
  obtain fn res_len where p: "p = (fn, res_len)" by (cases p)
  let ?res = "take res_len (drop start results)"
  from Cons.prems p obtain col where c: "fn ?res = Inr col"
    and run: "postprocess_loop zs results (start + res_len) (jac @ [col])
                (tr @ [CallPostprocess ?res]) = Inr (jac', start', tr')"
    by (auto simp: Let_def split: sum.splits)
  from Cons.IH [OF run] show ?case by simp
qed

lemma vjp_loop_returned:
  "vjp_loop contract tapes fns info results pairs ws start tr = Inr (ws', tr')
     \<Longrightarrow> nesting_of_calls tr' = nesting_of_calls tr
       \<and> length ws' = length ws + length pairs \<and> take (length ws) ws' = ws"
proof (induction pairs arbitrary: ws start tr)
  case Nil
  then show ?case by simp
next
  case (Cons p pairs)
  obtain t d where p: "p = (t, d)" by (cases p)
  show ?case
  proof (cases "card (trainable_params (tapes ! t)) = 0")
    case True
    with Cons.prems p have
      "vjp_loop contract tapes fns info results pairs (ws @ [NoneVal]) start tr = Inr (ws', tr')"
      by simp
    from Cons.IH [OF this] have
      "nesting_of_calls tr' = nesting_of_calls tr" "length ws' = length ws + length (p # pairs)"
      "take (Suc (length ws)) ws' = ws @ [NoneVal]" by simp_all
    moreover from this(3) have "take (length ws) ws' = ws"
      by (rule take_Suc_snoc)
    ultimately show ?thesis by simp
  next
    case False
    with Cons.prems p obtain jac start1 tr1 v where
      pp: "postprocess_loop (zip (fns ! t) info) results start [] tr = Inr (jac, start1, tr1)"
      and run: "vjp_loop contract tapes fns info results pairs (ws @ [v]) start1 tr1 = Inr (ws', tr')"
      by (auto simp: Let_def split: sum.splits)
    from Cons.IH [OF run] postprocess_loop_nesting [OF pp] have
      "nesting_of_calls tr' = nesting_of_calls tr" "length ws' = length ws + length (p # pairs)"
      "take (Suc (length ws)) ws' = ws @ [v]" by simp_all
    moreover from this(3) have "take (length ws) ws' = ws"
      by (rule take_Suc_snoc)
    ultimately show ?thesis by simp
  qed
qed

lemma vjp_loop_None:
  assumes "vjp_loop contract tapes fns info results pairs ws start tr = Inr (ws', tr')"
    and "NoneVal \<in> set ws \<or> (\<exists>p\<in>set pairs. card (trainable_params (tapes ! fst p)) = 0)"
  shows "NoneVal \<in> set ws'"
  using assms
proof (induction pairs arbitrary: ws start tr)
  case Nil
  then show ?case by simp
next
  case (Cons p pairs)
  obtain t d where p: "p = (t, d)" by (cases p)
  show ?case
  proof (cases "card (trainable_params (tapes ! t)) = 0")
    case True
    with Cons.prems(1) p have
      "vjp_loop contract tapes fns info results pairs (ws @ [NoneVal]) start tr = Inr (ws', tr')"
      by simp
    from Cons.IH [OF this] show ?thesis by simp
  next
    case False
    with Cons.prems(1) p obtain v start1 tr1 where
      run: "vjp_loop contract tapes fns info results pairs (ws @ [v]) start1 tr1 = Inr (ws', tr')"
      by (auto simp: Let_def split: sum.splits)
    have "NoneVal \<in> set (ws @ [v])
        \<or> (\<exists>p\<in>set pairs. card (trainable_params (tapes ! fst p)) = 0)"
      using Cons.prems(2) False p by auto
    from Cons.IH [OF run this] show ?thesis .
  qed
qed



lemma entered_store_other: "a \<notin> set ts \<Longrightarrow> entered_store ts h a = h a"
  by (induction ts arbitrary: h) auto

lemma snd_batch_execute_other:
  "a \<notin> set tapes \<Longrightarrow> snd (batch_execute expval_grad tapes device gradient_fn cache n h) a = h a"
  by (simp add: snd_batch_execute entered_store_other)

subsection \<open>The whole of \<open>grad_fn\<close>\<close>

lemma grad_fn_returned:
  assumes "fst (grad_fn expval_grad contract tapes device gradient_fn cache n dy h) = Inr (vs, tr)"
  shows "\<exists>ws. fst (grad_fn_vjp expval_grad contract tapes device gradient_fn cache n dy h)
                 = Inr (ws, tr)
              \<and> unwrap_each ws n = Inr vs"
  using assms by (auto simp: grad_fn_def split: prod.splits sum.splits)

lemma grad_fn_vjp_returned:
  assumes "fst (grad_fn_vjp expval_grad contract tapes device gradient_fn cache n dy h)
             = Inr (ws, tr)"
  obtains st h1 results h2 where
    "tapes_loop gradient_fn tapes
           \<lparr>reshape_info = [], gradient_tapes = [], processing_fns = [], trace = []\<rparr> h
         = (Inr st, h1)"
    "batch_execute expval_grad (gradient_tapes st) device None cache (Some (n + 1)) h1
         = (Inr results, h2)"
    "vjp_loop contract (map h2 tapes) (processing_fns st) (reshape_info st) results
              (zip [0..<length tapes] dy) [] 0
              (trace st @ [CallBatchExecute (gradient_tapes st) (batch_execute_n (Some (n + 1)))])
             = Inr (ws, tr)"
proof -
  obtain r1 h1 where a: "tapes_loop gradient_fn tapes
           \<lparr>reshape_info = [], gradient_tapes = [], processing_fns = [], trace = []\<rparr> h
         = (r1, h1)"
    by (cases "tapes_loop gradient_fn tapes
           \<lparr>reshape_info = [], gradient_tapes = [], processing_fns = [], trace = []\<rparr> h")
  with assms obtain st where r1: "r1 = Inr st"
    by (cases r1) (auto simp: grad_fn_vjp_def)
  obtain r2 h2 where b: "batch_execute expval_grad (gradient_tapes st) device None cache
           (Some (n + 1)) h1 = (r2, h2)"
    by (cases "batch_execute expval_grad (gradient_tapes st) device None cache (Some (n + 1)) h1")
  with assms a r1 obtain results where r2: "r2 = Inr results"
    by (cases r2) (auto simp: grad_fn_vjp_def Let_def)
  from assms a r1 b r2 have "vjp_loop contract (map h2 tapes) (processing_fns st)
      (reshape_info st) results (zip [0..<length tapes] dy) [] 0
      (trace st @ [CallBatchExecute (gradient_tapes st) (batch_execute_n (Some (n + 1)))])
     = Inr (ws, tr)"
    by (simp add: grad_fn_vjp_def Let_def)
  with a r1 b r2 that show thesis by blast
qed

lemma grad_fn_vjp_nesting:
  assumes "fst (grad_fn_vjp expval_grad contract tapes device gradient_fn cache n dy h)
             = Inr (ws, tr)"
  shows "nesting_of_calls tr = [n + 1]"
proof -
  from assms obtain st h1 results h2 where
    st: "tapes_loop gradient_fn tapes
           \<lparr>reshape_info = [], gradient_tapes = [], processing_fns = [], trace = []\<rparr> h
         = (Inr st, h1)"
    and be: "batch_execute expval_grad (gradient_tapes st) device None cache (Some (n + 1)) h1
         = (Inr results, h2)"
    and vl: "vjp_loop contract (map h2 tapes) (processing_fns st) (reshape_info st) results
              (zip [0..<length tapes] dy) [] 0
              (trace st @ [CallBatchExecute (gradient_tapes st) (batch_execute_n (Some (n + 1)))])
             = Inr (ws, tr)"
    by (rule grad_fn_vjp_returned)
  from tapes_loop_nesting [OF st] vjp_loop_returned [OF vl] show ?thesis
    by (simp add: batch_execute_n_def)
qed


lemma grad_fn_from_vjp:
  assumes "fst (grad_fn_vjp expval_grad contract tapes device gradient_fn cache n dy h)
             = Inr (ws, tr)"
    and "unwrap_each ws n = Inr vs"
  shows "fst (grad_fn expval_grad contract tapes device gradient_fn cache n dy h) = Inr (vs, tr)"
  using assms by (auto simp: grad_fn_def split: prod.splits sum.splits)

text \<open>
  A gradient tape may be a tape of the batch. With one tape whose parameter is a plain
  number, \<open>trainable_params = {0}\<close> and a \<open>gradient_fn\<close> that returns the tape itself,
  the recursive \<open>batch_execute\<close> enters the tape and classifies its parameter as not
  trainable; the second loop then finds no trainable parameter, appends \<open>None\<close>, and the
  final unwrapping raises.
\<close>

lemma grad_fn_gradient_tape_is_input_tape:
  "fst (grad_fn () (\<lambda>d jac k. Inr (ArrayBox (Plain (0::int))))
     [0] (\<lambda>ts. Inr (map operations ts)) (\<lambda>t idx k. (Inr ([t], \<lambda>res. Inr ()), k)) () 1 [()]
     (\<lambda>a. \<lparr>operations = a, parameters = [Plain (1::int)], trainable_params = {0}\<rparr>))
   = Inl AttributeError"
  by (simp add: grad_fn_def grad_fn_vjp_def batch_execute_n_def batch_execute_def
      prim_batch_execute_eq unwrap_arraybox.simps unwrap_state_def Let_def convert_to_numpy_def)

text \<open>
  C2. The code departs from it. The inner loop pairs the postprocessing functions of tape
  \<open>t\<close> with \<open>reshape_info\<close> from its beginning, for every tape, and not with the
  counts recorded for the tape's own parameters. Two tapes (at the addresses 0 and 1)
  with one trainable parameter each, where \<open>gradient_fn\<close> returns two shift tapes (at
  10 and 11) for the first and four (at 20, 21, 22, 23) for the second, and a device that
  returns for every tape its operations, here its address: the postprocessing function of
  the second tape is applied to the slice \<open>[20, 21]\<close>, of the length recorded for the
  first tape.
\<close>

theorem grad_fn_slices_failing_input:
  "fst (grad_fn () (\<lambda>d jac k. Inr (ArrayBox (Plain (concat jac))))
     [0, 1] (\<lambda>ts. Inr (map operations ts))
     (\<lambda>t idx h. (Inr (if t = 0 then [10, 11] else [20, 21, 22, 23], \<lambda>res. Inr res), h))
     () 1 [(), ()]
     (\<lambda>a. \<lparr>operations = a,
             parameters = (if a < 2 then [Tensor [1::nat] True] else [Plain [1]]),
             trainable_params = (if a < 2 then {0} else {})\<rparr>))
   = Inr ([Plain [10, 11], Plain [20, 21]],
          [CallGradientFn 0 0, CallGradientFn 1 0,
           CallBatchExecute [10, 11, 20, 21, 22, 23] 2,
           CallPostprocess [10, 11], CallPostprocess [20, 21]])"
  by (simp add: grad_fn_def grad_fn_vjp_def batch_execute_n_def batch_execute_def
      prim_batch_execute_eq unwrap_arraybox.simps unwrap_state_def Let_def)

text \<open>
  C3, in the form that holds. When \<open>gradient_fn\<close> raises on none of these calls and
  does not assign \<open>trainable_params\<close> of a tape of the batch, the first loop of
  \<open>grad_fn\<close> returns and has called \<open>gradient_fn(t, idx)\<close> exactly once for every tape
  \<open>t\<close>, in input order, and every \<open>idx\<close> of \<open>0, ..., len(t.trainable_params) - 1\<close>, in
  increasing order: the second argument is the position in the enumeration of the
  trainable set, not the element of the set.
\<close>

theorem gradient_fn_calls:
  assumes "\<forall>t\<in>set tapes. \<forall>idx<card (trainable_params (h t)). \<forall>k.
             \<not> isl (fst (gradient_fn t idx k))"
    and "\<forall>t idx k. \<forall>a\<in>set tapes.
             trainable_params (snd (gradient_fn t idx k) a) = trainable_params (k a)"
  shows "\<exists>st h'. tapes_loop gradient_fn tapes
                \<lparr>reshape_info = [], gradient_tapes = [], processing_fns = [], trace = []\<rparr> h
              = (Inr st, h')
            \<and> trace st = concat (map (\<lambda>t. map (CallGradientFn t)
                                            [0..<card (trainable_params (h t))]) tapes)"
  using tapes_loop_returns [OF assms,
      of "\<lparr>reshape_info = [], gradient_tapes = [], processing_fns = [], trace = []\<rparr>"]
  by simp

theorem gradient_fn_calls_witness:
  "\<exists>st h'. tapes_loop (\<lambda>t idx k. (Inr ([t], \<lambda>res :: nat list. Inr ()), k)) [0]
              \<lparr>reshape_info = [], gradient_tapes = [], processing_fns = [], trace = []\<rparr>
              (\<lambda>a. \<lparr>operations = (), parameters = [Tensor (1::int) True, Plain 2, Tensor 3 True],
                      trainable_params = {0, 2}\<rparr>)
            = (Inr st, h')
          \<and> trace st = [CallGradientFn 0 0, CallGradientFn 0 1]"
  using gradient_fn_calls [of "[0]"
      "\<lambda>a. \<lparr>operations = (), parameters = [Tensor (1::int) True, Plain 2, Tensor 3 True],
                      trainable_params = {0, 2}\<rparr>"
      "\<lambda>t idx k. (Inr ([t], \<lambda>res :: nat list. Inr ()), k)"]
  by (simp add: numeral_2_eq_2)

text \<open>
  C3 as stated fails: for a tape with \<open>trainable_params = {0, 2}\<close> the calls are
  \<open>gradient_fn(t, 0)\<close> and \<open>gradient_fn(t, 1)\<close>, and 1 is not in the trainable set.
\<close>

theorem gradient_fn_calls_counterexample:
  "(case fst (tapes_loop (\<lambda>t idx k. (Inr ([t], \<lambda>res :: nat list. Inr ()), k)) [0]
              \<lparr>reshape_info = [], gradient_tapes = [], processing_fns = [], trace = []\<rparr>
              (\<lambda>a. \<lparr>operations = (), parameters = [Tensor (1::int) True, Plain 2, Tensor 3 True],
                      trainable_params = {0, 2}\<rparr>)) of
      Inl e \<Rightarrow> [] | Inr st \<Rightarrow> trace st)
   = [CallGradientFn 0 0, CallGradientFn 0 1]
   \<and> 1 \<notin> trainable_params \<lparr>operations = (), parameters = [Tensor (1::int) True, Plain 2, Tensor 3 True],
                trainable_params = {0, 2}\<rparr>"
  by (simp add: numeral_2_eq_2)

text \<open>
  C4. The code departs from it. For a tape without trainable parameters \<open>grad_fn\<close>
  appends \<open>None\<close> to \<open>vjp\<close>, and the final \<open>_unwrap_arraybox(v, max_depth=_n)\<close> reads
  \<open>None._value\<close>: whenever a tape that is paired with a row of \<open>dy\<close> has no trainable
  parameter and \<open>_n\<close> is not 0, \<open>grad_fn\<close> raises instead of returning a list with the
  entry \<open>None\<close> for that tape. Here \<open>gradient_fn\<close> neither assigns \<open>trainable_params\<close>
  of that tape nor returns that tape as a gradient tape, so that the tape still has no
  trainable parameter when the second loop reads it.
\<close>

theorem grad_fn_without_trainable_raises:
  assumes "i < length tapes" and "i < length dy" and "n \<noteq> 0"
    and "trainable_params (h (tapes ! i)) = {}"
    and "\<forall>t idx k. trainable_params (snd (gradient_fn t idx k) (tapes ! i))
                      = trainable_params (k (tapes ! i))"
    and "\<forall>t idx k gs fn. fst (gradient_fn t idx k) = Inr (gs, fn) \<longrightarrow> tapes ! i \<notin> set gs"
  shows "isl (fst (grad_fn expval_grad contract tapes device gradient_fn cache n dy h))"
proof (rule ccontr)
  assume "\<not> isl (fst (grad_fn expval_grad contract tapes device gradient_fn cache n dy h))"
  then obtain vs tr where
    "fst (grad_fn expval_grad contract tapes device gradient_fn cache n dy h) = Inr (vs, tr)"
    by (cases "fst (grad_fn expval_grad contract tapes device gradient_fn cache n dy h)") auto
  from grad_fn_returned [OF this] obtain ws where
    body: "fst (grad_fn_vjp expval_grad contract tapes device gradient_fn cache n dy h)
             = Inr (ws, tr)"
    and un: "unwrap_each ws n = Inr vs" by blast
  from body obtain st h1 results h2 where
    st: "tapes_loop gradient_fn tapes
           \<lparr>reshape_info = [], gradient_tapes = [], processing_fns = [], trace = []\<rparr> h
         = (Inr st, h1)"
    and be: "batch_execute expval_grad (gradient_tapes st) device None cache (Some (n + 1)) h1
         = (Inr results, h2)"
    and vl: "vjp_loop contract (map h2 tapes) (processing_fns st) (reshape_info st) results
              (zip [0..<length tapes] dy) [] 0
              (trace st @ [CallBatchExecute (gradient_tapes st) (batch_execute_n (Some (n + 1)))])
             = Inr (ws, tr)"
    by (rule grad_fn_vjp_returned)
  let ?a = "tapes ! i"
  have "trainable_params (snd (tapes_loop gradient_fn tapes
           \<lparr>reshape_info = [], gradient_tapes = [], processing_fns = [], trace = []\<rparr> h) ?a)
      = trainable_params (h ?a)"
    by (rule tapes_loop_frame) (rule assms(5))
  then have "trainable_params (h1 ?a) = trainable_params (h ?a)"
    by (simp add: st)
  moreover have "?a \<notin> set (gradient_tapes st)"
    using tapes_loop_avoids [OF st assms(6)] by simp
  then have "h2 ?a = h1 ?a"
    using snd_batch_execute_other [of ?a "gradient_tapes st" expval_grad device None cache
        "Some (n + 1)" h1] be by simp
  ultimately have "trainable_params (h2 ?a) = {}" using assms(4) by simp
  moreover have "(i, dy ! i) \<in> set (zip [0..<length tapes] dy)"
    using assms(1,2) by (auto simp: in_set_zip intro!: exI [of _ i])
  ultimately have "\<exists>p\<in>set (zip [0..<length tapes] dy).
      card (trainable_params (map h2 tapes ! fst p)) = 0"
    using assms(1) by (intro bexI [of _ "(i, dy ! i)"]) simp_all
  with vjp_loop_None [OF vl] have "NoneVal \<in> set ws" by blast
  from unwrap_each_None [OF this assms(3)] un show False by simp
qed

text \<open>
  With two tapes (at the addresses 0 and 1), the second without trainable parameters,
  two shift tapes (at 10 and 11), one row of \<open>dy\<close> per tape and the default \<open>_n = 1\<close>,
  the exception is \<open>AttributeError\<close>.
\<close>

theorem grad_fn_without_trainable_raises_witness:
  "fst (grad_fn () (\<lambda>d jac k. Inr (ArrayBox (Plain (0::int))))
     [0, 1] (\<lambda>ts. Inr (map operations ts))
     (\<lambda>t idx k. (Inr ([10, 11], \<lambda>res. Inr ()), k)) () 1 [(), ()]
     (\<lambda>a. \<lparr>operations = a,
             parameters = (if a = 0 then [Tensor (1::int) True] else [Plain 1]),
             trainable_params = (if a = 0 then {0} else {})\<rparr>))
   = Inl AttributeError"
  using grad_fn_without_trainable_raises [of 1 "[0, 1]" "[(), ()]" 1
      "\<lambda>a. \<lparr>operations = a,
             parameters = (if a = 0 then [Tensor (1::int) True] else [Plain 1]),
             trainable_params = (if a = 0 then {0} else {})\<rparr>"
      "\<lambda>t idx k. (Inr ([10, 11], \<lambda>res. Inr ()), k)"
      "()" "\<lambda>d jac k. Inr (ArrayBox (Plain (0::int)))" "\<lambda>ts. Inr (map operations ts)" "()"]
  by (simp add: grad_fn_def grad_fn_vjp_def batch_execute_n_def batch_execute_def
      prim_batch_execute_eq unwrap_arraybox.simps unwrap_state_def Let_def convert_to_numpy_def)

text \<open>
  C5, in the form that holds. The argument \<open>_n\<close> of \<open>batch_execute\<close> is 1 when it is
  not given; a \<open>grad_fn\<close> that returns has called \<open>batch_execute\<close> once, with \<open>_n + 1\<close>;
  and for \<open>_n \<ge> 0\<close> what \<open>grad_fn\<close> returns is its list \<open>vjp\<close> with at most \<open>_n\<close>
  wrapper layers removed from every entry: the depth of a returned entry is the depth of
  the entry of \<open>vjp\<close> minus \<open>_n\<close>, and 0 when that entry has fewer than \<open>_n\<close> layers.
  When every entry of \<open>vjp\<close> is an \<open>ArrayBox\<close>, \<open>grad_fn\<close> does return.
\<close>

theorem nesting_depth:
  "batch_execute_n None = 1
   \<and> (fst (grad_fn expval_grad contract tapes device gradient_fn cache n dy h) = Inr (vs, tr)
        \<longrightarrow> nesting_of_calls tr = [n + 1])
   \<and> (0 \<le> n
        \<and> fst (grad_fn expval_grad contract tapes device gradient_fn cache n dy h) = Inr (vs, tr)
        \<longrightarrow> (\<exists>ws. fst (grad_fn_vjp expval_grad contract tapes device gradient_fn cache n dy h)
                    = Inr (ws, tr)
                  \<and> vs = map (peel ^^ nat n) ws
                  \<and> map box_depth vs = map (\<lambda>w. box_depth w - nat n) ws))
   \<and> (0 \<le> n
        \<and> fst (grad_fn_vjp expval_grad contract tapes device gradient_fn cache n dy h)
            = Inr (ws, tr)
        \<and> (\<forall>w\<in>set ws. is_ArrayBox w)
        \<longrightarrow> fst (grad_fn expval_grad contract tapes device gradient_fn cache n dy h)
            = Inr (map (peel ^^ nat n) ws, tr))"
proof (intro conjI impI)
  show "batch_execute_n None = 1" by (simp add: batch_execute_n_def)
next
  assume "fst (grad_fn expval_grad contract tapes device gradient_fn cache n dy h) = Inr (vs, tr)"
  from grad_fn_returned [OF this] obtain ws where
    "fst (grad_fn_vjp expval_grad contract tapes device gradient_fn cache n dy h) = Inr (ws, tr)"
    by blast
  from grad_fn_vjp_nesting [OF this] show "nesting_of_calls tr = [n + 1]" .
next
  assume a: "0 \<le> n
    \<and> fst (grad_fn expval_grad contract tapes device gradient_fn cache n dy h) = Inr (vs, tr)"
  from grad_fn_returned [of expval_grad contract tapes device gradient_fn cache n dy h vs tr] a
  obtain ws where
    b: "fst (grad_fn_vjp expval_grad contract tapes device gradient_fn cache n dy h) = Inr (ws, tr)"
    and u: "unwrap_each ws n = Inr vs" by blast
  from unwrap_each_returned [OF _ u] a have v: "vs = map (peel ^^ nat n) ws" by simp
  then have "map box_depth vs = map (\<lambda>w. box_depth w - nat n) ws"
    by (simp add: box_depth_peel)
  with b v show "\<exists>ws. fst (grad_fn_vjp expval_grad contract tapes device gradient_fn cache n dy h)
                    = Inr (ws, tr)
                  \<and> vs = map (peel ^^ nat n) ws
                  \<and> map box_depth vs = map (\<lambda>w. box_depth w - nat n) ws" by blast
next
  assume a: "0 \<le> n
        \<and> fst (grad_fn_vjp expval_grad contract tapes device gradient_fn cache n dy h)
            = Inr (ws, tr)
        \<and> (\<forall>w\<in>set ws. is_ArrayBox w)"
  then have u: "unwrap_each ws n = Inr (map (peel ^^ nat n) ws)"
    using unwrap_each_peel [of ws n] by simp
  from a have b: "fst (grad_fn_vjp expval_grad contract tapes device gradient_fn cache n dy h)
            = Inr (ws, tr)" by simp
  from grad_fn_from_vjp [OF b u]
  show "fst (grad_fn expval_grad contract tapes device gradient_fn cache n dy h)
            = Inr (map (peel ^^ nat n) ws, tr)" .
qed

theorem nesting_depth_witness:
  "fst (grad_fn () (\<lambda>d jac k. Inr (ArrayBox (ArrayBox (Plain (7::int)))))
       [0] (\<lambda>ts. Inr (map operations ts))
       (\<lambda>t idx k. (Inr ([10, 11], \<lambda>res. Inr ()), k)) () 1 [()]
       (\<lambda>a. \<lparr>operations = a,
               parameters = (if a = 0 then [Tensor (1::int) True] else [Plain 1]),
               trainable_params = (if a = 0 then {0} else {})\<rparr>))
     = Inr ([ArrayBox (Plain 7)],
            [CallGradientFn 0 0, CallBatchExecute [10, 11] 2, CallPostprocess [10, 11]])
   \<and> fst (grad_fn_vjp () (\<lambda>d jac k. Inr (ArrayBox (ArrayBox (Plain (7::int)))))
       [0] (\<lambda>ts. Inr (map operations ts))
       (\<lambda>t idx k. (Inr ([10, 11], \<lambda>res. Inr ()), k)) () 1 [()]
       (\<lambda>a. \<lparr>operations = a,
               parameters = (if a = 0 then [Tensor (1::int) True] else [Plain 1]),
               trainable_params = (if a = 0 then {0} else {})\<rparr>))
     = Inr ([ArrayBox (ArrayBox (Plain 7))],
            [CallGradientFn 0 0, CallBatchExecute [10, 11] 2, CallPostprocess [10, 11]])
   \<and> nesting_of_calls
        [CallGradientFn 0 0, CallBatchExecute [10, 11] 2, CallPostprocess [10, 11 :: nat]]
     = [1 + 1]
   \<and> map box_depth [ArrayBox (Plain (7::int))]
     = map (\<lambda>w. box_depth w - nat 1) [ArrayBox (ArrayBox (Plain (7::int)))]"
  using nesting_depth [of "()" "\<lambda>d jac k. Inr (ArrayBox (ArrayBox (Plain (7::int))))"
      "[0]" "\<lambda>ts. Inr (map operations ts)"
      "\<lambda>t idx k. (Inr ([10, 11], \<lambda>res. Inr ()), k)" "()" 1 "[()]"
      "\<lambda>a. \<lparr>operations = a,
               parameters = (if a = 0 then [Tensor (1::int) True] else [Plain 1]),
               trainable_params = (if a = 0 then {0} else {})\<rparr>"
      "[ArrayBox (Plain 7)]"
      "[CallGradientFn 0 0, CallBatchExecute [10, 11] 2, CallPostprocess [10, 11]]"
      "[ArrayBox (ArrayBox (Plain 7))]"]
  by (simp add: grad_fn_def grad_fn_vjp_def batch_execute_n_def batch_execute_def
      prim_batch_execute_eq unwrap_arraybox.simps unwrap_state_def Let_def convert_to_numpy_def)

text \<open>
  C5 as stated fails: with \<open>_n = 2\<close> and an entry of \<open>vjp\<close> with one wrapper layer,
  \<open>grad_fn\<close> returns the entry without that one layer; two layers are not removed.
\<close>

theorem nesting_depth_counterexample:
  "fst (grad_fn_vjp () (\<lambda>d jac k. Inr (ArrayBox (Plain (7::int))))
       [0] (\<lambda>ts. Inr (map operations ts))
       (\<lambda>t idx k. (Inr ([10, 11], \<lambda>res. Inr ()), k)) () 2 [()]
       (\<lambda>a. \<lparr>operations = a,
               parameters = (if a = 0 then [Tensor (1::int) True] else [Plain 1]),
               trainable_params = (if a = 0 then {0} else {})\<rparr>))
     = Inr ([ArrayBox (Plain 7)],
            [CallGradientFn 0 0, CallBatchExecute [10, 11] 3, CallPostprocess [10, 11]])
   \<and> fst (grad_fn () (\<lambda>d jac k. Inr (ArrayBox (Plain (7::int))))
       [0] (\<lambda>ts. Inr (map operations ts))
       (\<lambda>t idx k. (Inr ([10, 11], \<lambda>res. Inr ()), k)) () 2 [()]
       (\<lambda>a. \<lparr>operations = a,
               parameters = (if a = 0 then [Tensor (1::int) True] else [Plain 1]),
               trainable_params = (if a = 0 then {0} else {})\<rparr>))
     = Inr ([Plain 7],
            [CallGradientFn 0 0, CallBatchExecute [10, 11] 3, CallPostprocess [10, 11]])
   \<and> box_depth (ArrayBox (Plain (7::int))) \<noteq> box_depth (Plain (7::int)) + 2"
  by (simp add: grad_fn_def grad_fn_vjp_def batch_execute_n_def batch_execute_def
      prim_batch_execute_eq unwrap_arraybox.simps unwrap_state_def Let_def convert_to_numpy_def)




section \<open>Properties of the nuclear repulsion energy\<close>

text \<open>
  C9. For H-H at bond length 1 (charges 1 and 1) the pairwise repulsion sum is \<open>1 * 1 /
  1 = 1\<close>, and for H-F at bond length 2 (charges 1 and 9) it is \<open>1 * 9 / 2 = 4.5\<close>.
\<close>

theorem nuclear_energy_scenarios:
  "nuclear_energy [1, 1] [[0, 0, 0], [0, 0, 1]] [[0, 0, 0], [0, 0, 1]] = 1
   \<and> nuclear_energy [1, 9] [[0, 0, 0], [0, 0, 2]] [[0, 0, 0], [0, 0, 2]] = 4.5"
  by (simp add: nuclear_energy_def distance_def numeral_2_eq_2 upt_rec)


end
